theory Spec2Isabelle
  imports Main
begin

section \<open>A file-backed logger (src/logger.py)\<close>

text \<open>
  The module defines one class, \<open>Logger\<close>, with the class-level dictionary
  \<open>Logger.open_loggers\<close> (log-file name to open file object) and the methods
  \<open>__init__\<close>, \<open>format\<close>, \<open>log\<close>, \<open>create_log_file\<close>, \<open>get_log_name\<close> and
  \<open>close\<close>. The embedding is sequential: the two locks only order threads and are
  represented by the test \<open>if self.lock\<close> alone. Every exception the code can raise is a
  value of \<open>error\<close>; a method that mutates before it raises returns the mutated state
  together with the error. Level names are ASCII text and level values integers;
  \<open>sys.stderr.write\<close> and the creation of the lock are taken to succeed; timestamps
  are passed in as the strings \<open>strftime\<close> returned.
\<close>

subsection \<open>Exceptions\<close>

datatype error =
    FileNotOpen | PathNonExistant | LevelNotSupported | UnableToLock
  | ValueError | AttributeError | KeyError | TypeError | OSError

text \<open>
  An instance attribute that has never been assigned raises \<open>AttributeError\<close> when it is
  read; an assigned one holds a value (which may be Python's \<open>None\<close>).
\<close>

datatype 'a attr = Unset | Attr 'a

fun getattr :: "'a attr \<Rightarrow> error + 'a" where
  "getattr Unset = Inl AttributeError"
| "getattr (Attr v) = Inr v"

subsection \<open>Strings\<close>

text \<open>\<open>str.upper\<close> on ASCII text: the letters a to z are mapped to A to Z.\<close>

definition upper_char :: "char \<Rightarrow> char" where
  "upper_char c =
     (case map_of (zip ''abcdefghijklmnopqrstuvwxyz'' ''ABCDEFGHIJKLMNOPQRSTUVWXYZ'') c of
        Some u \<Rightarrow> u
      | None \<Rightarrow> c)"

definition upper :: "string \<Rightarrow> string" where
  "upper s = map upper_char s"

text \<open>\<open>" ".join(xs)\<close>\<close>

fun join_space :: "string list \<Rightarrow> string" where
  "join_space [] = []"
| "join_space [x] = x"
| "join_space (x # y # ys) = x @ '' '' @ join_space (y # ys)"

text \<open>
  \<open>Logger.format(*args)\<close> is \<open>" ".join(map(str, args))\<close>; the arguments are the strings
  that \<open>str\<close> returns for them (a \<open>str\<close> is its own \<open>str\<close>).
\<close>

definition format :: "string list \<Rightarrow> string" where
  "format args = join_space args"

text \<open>
  The optional \<open>context\<close> argument of \<open>log\<close>: \<open>None\<close> or a dict (the docstring's type).
  A dict is given by its items in insertion order, each key and value by its \<open>repr\<close>.
\<close>

datatype pycontext = PyNone | PyDict "(string \<times> string) list"

fun truthy :: "pycontext \<Rightarrow> bool" where
  "truthy PyNone = False"
| "truthy (PyDict kvs) = (kvs \<noteq> [])"

fun join_comma :: "string list \<Rightarrow> string" where
  "join_comma [] = []"
| "join_comma [x] = x"
| "join_comma (x # y # ys) = x @ '', '' @ join_comma (y # ys)"

fun str_of :: "pycontext \<Rightarrow> string" where
  "str_of PyNone = ''None''"
| "str_of (PyDict kvs) = ''{'' @ join_comma (map (\<lambda>(k, v). k @ '': '' @ v) kvs) @ ''}''"

subsection \<open>Settings\<close>

text \<open>
  The value of \<open>self.settings\<close>, as far as the code inspects it: its truth value, and its
  \<open>'LogLevels'\<close> entry, a dict from level names to integers.
\<close>

datatype settings =
    NoneSettings
  | EmptySettings
  | OtherSettings
  | LevelSettings "string \<rightharpoonup> int"

fun settings_truthy :: "settings \<Rightarrow> bool" where
  "settings_truthy NoneSettings = False"
| "settings_truthy EmptySettings = False"
| "settings_truthy OtherSettings = True"
| "settings_truthy (LevelSettings tbl) = True"

text \<open>\<open>settings['LogLevels']\<close>\<close>

fun get_LogLevels :: "settings \<Rightarrow> error + (string \<rightharpoonup> int)" where
  "get_LogLevels NoneSettings = Inl TypeError"
| "get_LogLevels EmptySettings = Inl KeyError"
| "get_LogLevels OtherSettings = Inl KeyError"
| "get_LogLevels (LevelSettings tbl) = Inr tbl"

subsection \<open>Files, the registry and the environment\<close>

text \<open>
  A file object, as \<open>open(name, "a")\<close> returns it: a buffered text file. \<open>written\<close>
  lists the strings that \<open>write\<close> has accepted; they stay in the object's buffer until
  the file is closed, since the code never flushes. File objects live in a store indexed
  by identity; \<open>nfiles\<close> counts the objects created so far. \<open>open_loggers\<close> is the class
  attribute \<open>Logger.open_loggers\<close>.
\<close>

record file_obj =
  name :: string
  closed :: bool
  written :: "string list"

record world =
  files :: "nat \<Rightarrow> file_obj"
  nfiles :: nat
  open_loggers :: "string \<rightharpoonup> nat"
  stderr :: "string list"

text \<open>
  What the operating system decides: the working directory, \<open>Path.resolve\<close>, whether
  \<open>mkdir\<close> and \<open>open\<close> succeed on a path, whether it accepts the buffered data of a
  file when the buffer is flushed (\<open>can_write\<close>), and what \<open>json.load\<close> returns for a
  settings file.
\<close>

record env =
  cwd :: string
  resolve :: "string \<Rightarrow> string"
  can_mkdir :: "string \<Rightarrow> bool"
  can_open :: "string \<Rightarrow> bool"
  can_write :: "string \<Rightarrow> bool"
  load_json :: "string \<Rightarrow> error + settings"

text \<open>
  \<open>file.write(s)\<close>: \<open>ValueError\<close> on a closed file; otherwise \<open>s\<close> goes to the buffer and
  \<open>write\<close> returns, whatever the system would do with the data (a record too large for
  the buffer is outside the model).
\<close>

definition file_write :: "world \<Rightarrow> nat \<Rightarrow> string \<Rightarrow> error option \<times> world" where
  "file_write w f s =
     (if closed (files w f) then (Some ValueError, w)
      else (None, w\<lparr>files := (files w)(f := (files w f)\<lparr>written := written (files w f) @ [s]\<rparr>)\<rparr>))"

text \<open>
  \<open>file.close()\<close>: closing a closed file does nothing. Closing an open file flushes the
  buffer first; when there is data in it and the system refuses the write, \<open>close\<close>
  raises \<open>OSError\<close>. The file object is closed either way.
\<close>

definition close_file :: "env \<Rightarrow> world \<Rightarrow> nat \<Rightarrow> error option \<times> world" where
  "close_file e w f =
     (if closed (files w f) then (None, w)
      else if concat (written (files w f)) \<noteq> [] \<and> \<not> can_write e (name (files w f)) then
        (Some OSError, w\<lparr>files := (files w)(f := (files w f)\<lparr>closed := True\<rparr>)\<rparr>)
      else (None, w\<lparr>files := (files w)(f := (files w f)\<lparr>closed := True\<rparr>)\<rparr>))"

subsection \<open>The Logger instance\<close>

text \<open>
  \<open>lock\<close> is \<open>True\<close> for a lock object and \<open>False\<close> for \<open>None\<close>; \<open>log_file\<close> is the
  identity of a file object or \<open>None\<close>. The attributes that \<open>__init__\<close> does not initialise
  before its first read of the instance are \<open>attr\<close> values.
\<close>

record logger =
  lock :: bool
  loglevel :: string
  file_path :: "string option"
  log_file :: "nat option"
  log_file_name :: "string option"
  timestamp :: "string option"
  log_file_type :: "string attr"
  configured_level_value :: "int option attr"
  settings :: "settings attr"
  settings_path :: "string attr"

definition supported_formats :: "string list" where
  "supported_formats = [''log'', ''txt'']"

subsection \<open>Logger.log\<close>

text \<open>
  \<open>ts\<close> is the string \<open>datetime.datetime.now().strftime("%Y-%m-%d %H-%M-%S")\<close> returned.
  The result is the exception raised, if any, and the world after the call.
\<close>

definition log ::
  "world \<Rightarrow> logger \<Rightarrow> string \<Rightarrow> string \<Rightarrow> string \<Rightarrow> pycontext \<Rightarrow> error option \<times> world" where
  "log w self ts level message context =
     (if lock self then
        (case log_file self of
           Some f \<Rightarrow>
             (case getattr (settings self) of
                Inl err \<Rightarrow> (Some err, w)
              | Inr st \<Rightarrow>
                  if settings_truthy st then
                    (case get_LogLevels st of
                       Inl err \<Rightarrow> (Some err, w)
                     | Inr tbl \<Rightarrow>
                         (case tbl (upper level) of
                            None \<Rightarrow> (Some LevelNotSupported, w)
                          | Some log_level_value \<Rightarrow>
                              (case getattr (configured_level_value self) of
                                 Inl err \<Rightarrow> (Some err, w)
                               | Inr None \<Rightarrow> (Some LevelNotSupported, w)
                               | Inr (Some configured) \<Rightarrow>
                                   if log_level_value \<ge> configured then
                                     (if \<not> truthy context then
                                        file_write w f
                                          (''['' @ ts @ ''] ['' @ upper level @ ''] ''
                                            @ format [message] @ ''\<newline>'')
                                      else
                                        file_write w f
                                          (''['' @ ts @ ''] ['' @ upper level @ ''] ''
                                            @ format [message] @ '' ['' @ str_of context
                                            @ '']\<newline>''))
                                   else (None, w))))
                  else (None, w))
         | None \<Rightarrow> (Some FileNotOpen, w))
      else (Some UnableToLock, w))"

subsection \<open>Logger.get_log_name and Logger.create_log_file\<close>

text \<open>\<open>self.file_path / name\<close> on resolved (absolute) paths.\<close>

definition path_join :: "string \<Rightarrow> string \<Rightarrow> string" where
  "path_join p n = (if p \<noteq> [] \<and> last p = CHR ''/'' then p @ n else p @ ''/'' @ n)"

text \<open>An f-string renders \<open>None\<close> as the text \<open>None\<close>.\<close>

fun str_opt :: "string option \<Rightarrow> string" where
  "str_opt None = ''None''"
| "str_opt (Some s) = s"

definition get_log_name :: "logger \<Rightarrow> error + string" where
  "get_log_name self =
     (case file_path self of
        Some p \<Rightarrow>
          (case getattr (log_file_type self) of
             Inl err \<Rightarrow> Inl err
           | Inr ty \<Rightarrow> Inr (path_join p (str_opt (timestamp self) @ ''.'' @ ty)))
      | None \<Rightarrow> Inl PathNonExistant)"

definition open_error_message :: "string option \<Rightarrow> string" where
  "open_error_message n = ''Error: Unable to open log file '' @ str_opt n @ ''\<newline>''"

text \<open>
  \<open>ts\<close> is the timestamp the nested \<open>self.log('info', "Starting")\<close> reads. The \<open>try\<close>
  covers the registry lookup, \<open>open\<close>, the registration and the nested \<open>log\<close>;
  \<open>except IOError\<close> (an alias of \<open>OSError\<close>) writes to \<open>sys.stderr\<close> and returns.
\<close>

definition create_log_file ::
  "env \<Rightarrow> world \<Rightarrow> logger \<Rightarrow> string \<Rightarrow> error option \<times> world \<times> logger" where
  "create_log_file e w self ts =
     (case get_log_name self of
        Inl err \<Rightarrow> (Some err, w, self)
      | Inr n \<Rightarrow>
          (case file_path self of
             None \<Rightarrow> (Some PathNonExistant, w, self\<lparr>log_file_name := Some n\<rparr>)
           | Some p \<Rightarrow>
               if \<not> can_mkdir e p then (Some OSError, w, self\<lparr>log_file_name := Some n\<rparr>)
               else
                 (case open_loggers w n of
                    Some f \<Rightarrow> (None, w, self\<lparr>log_file_name := Some n, log_file := Some f\<rparr>)
                  | None \<Rightarrow>
                      if \<not> can_open e n then
                        (None, w\<lparr>stderr := stderr w @ [open_error_message (Some n)]\<rparr>,
                         self\<lparr>log_file_name := Some n\<rparr>)
                      else
                        (case log
                                (w\<lparr>files := (files w)
                                     (nfiles w := \<lparr>name = n, closed = False, written = []\<rparr>),
                                   nfiles := Suc (nfiles w),
                                   open_loggers := (open_loggers w)(n \<mapsto> nfiles w)\<rparr>)
                                (self\<lparr>log_file_name := Some n, log_file := Some (nfiles w)\<rparr>)
                                ts ''info'' ''Starting'' PyNone of
                           (None, w') \<Rightarrow>
                             (None, w',
                              self\<lparr>log_file_name := Some n, log_file := Some (nfiles w)\<rparr>)
                         | (Some err, w') \<Rightarrow>
                             if err = OSError then
                               (None, w'\<lparr>stderr := stderr w' @ [open_error_message (Some n)]\<rparr>,
                                self\<lparr>log_file_name := Some n, log_file := Some (nfiles w)\<rparr>)
                             else
                               (Some err, w',
                                self\<lparr>log_file_name := Some n, log_file := Some (nfiles w)\<rparr>)))))"

subsection \<open>Logger.close\<close>

text \<open>
  \<open>try: self.log('info', "Closing file") finally: ...\<close>: the \<open>finally\<close> block runs
  whatever the nested \<open>log\<close> did. Its first statement is \<open>self.log_file.close()\<close>; when
  that raises, the rest of the block (the removal from the registry, and
  \<open>self.log_file = None\<close>) is skipped and the exception of \<open>close()\<close> is the one raised.
  Otherwise an exception of the nested \<open>log\<close> is raised again after the block.
\<close>

definition deregister :: "world \<Rightarrow> string option \<Rightarrow> world" where
  "deregister w n =
     (case n of
        None \<Rightarrow> w
      | Some k \<Rightarrow>
          if k \<in> dom (open_loggers w) then w\<lparr>open_loggers := (open_loggers w)(k := None)\<rparr>
          else w)"

definition close :: "env \<Rightarrow> world \<Rightarrow> logger \<Rightarrow> string \<Rightarrow> error option \<times> world \<times> logger" where
  "close e w self ts =
     (case log_file self of
        Some f \<Rightarrow>
          (case log w self ts ''info'' ''Closing file'' PyNone of
             (r, w') \<Rightarrow>
               (case close_file e w' f of
                  (Some err, w'') \<Rightarrow> (Some err, w'', self)
                | (None, w'') \<Rightarrow>
                    (r, deregister w'' (log_file_name self), self\<lparr>log_file := None\<rparr>)))
      | None \<Rightarrow> (Some FileNotOpen, w, self))"

subsection \<open>Logger.__init__\<close>

text \<open>
  The instance after lines 60 to 79: \<open>lock\<close>, \<open>loglevel\<close>, \<open>file_path\<close>, \<open>log_file\<close>,
  \<open>log_file_name\<close>, \<open>timestamp\<close> (and \<open>supported_formats\<close>) are assigned, nothing else is.
  \<open>now\<close> is \<open>datetime.datetime.now().strftime("%Y-%m-%d_%H-%M-%S")\<close>.
\<close>

definition init_fields :: "string \<Rightarrow> string \<Rightarrow> logger" where
  "init_fields LogLevel now =
     \<lparr>lock = True, loglevel = upper LogLevel, file_path = None, log_file = None,
      log_file_name = None, timestamp = Some now, log_file_type = Unset,
      configured_level_value = Unset, settings = Unset, settings_path = Unset\<rparr>"

text \<open>Line 80: \<open>self.settings['LogLevels'].get(self.loglevel)\<close>\<close>

definition configured_level :: "logger \<Rightarrow> error + int option" where
  "configured_level self =
     (case getattr (settings self) of
        Inl err \<Rightarrow> Inl err
      | Inr st \<Rightarrow>
          (case get_LogLevels st of
             Inl err \<Rightarrow> Inl err
           | Inr tbl \<Rightarrow> Inr (tbl (loglevel self))))"

text \<open>
  Lines 102 to 118: both branches open \<open>settings_path\<close> and \<open>json.load\<close> it (a \<open>Path\<close>
  object is always true, so the \<open>PathNonExistant\<close> branch is never taken).
\<close>

definition load_settings :: "env \<Rightarrow> logger \<Rightarrow> string \<Rightarrow> error option \<times> logger" where
  "load_settings e self spath =
     (case load_json e spath of
        Inl err \<Rightarrow> (Some err, self\<lparr>settings_path := Attr spath\<rparr>)
      | Inr st \<Rightarrow> (None, self\<lparr>settings_path := Attr spath, settings := Attr st\<rparr>))"

text \<open>
  \<open>__init__(output_dir, log_file_type, settings_path, LogLevel)\<close>; \<open>now\<close> and \<open>ts\<close> are the
  two timestamps read (line 78, and inside the nested \<open>log\<close>). The result is the exception
  raised, if any, the world and the instance as far as it was initialised.
\<close>

definition init ::
  "env \<Rightarrow> world \<Rightarrow> string \<Rightarrow> string \<Rightarrow> string \<Rightarrow> string \<Rightarrow> string \<Rightarrow> string
     \<Rightarrow> error option \<times> world \<times> logger" where
  "init e w output_dir ftype spath LogLevel now ts =
     (case configured_level (init_fields LogLevel now) of
        Inl err \<Rightarrow> (Some err, w, init_fields LogLevel now)
      | Inr v \<Rightarrow>
          if ftype \<in> set supported_formats then
            (case create_log_file e w
                    ((init_fields LogLevel now)
                       \<lparr>configured_level_value := Attr v,
                        log_file_type := Attr ftype,
                        file_path :=
                          Some (if output_dir = ''.'' then resolve e (cwd e)
                                else resolve e output_dir)\<rparr>) ts of
               (Some err, w', self') \<Rightarrow> (Some err, w', self')
             | (None, w', self') \<Rightarrow>
                 (case load_settings e self' spath of
                    (r, self'') \<Rightarrow> (r, w', self'')))
          else (Some ValueError, w, (init_fields LogLevel now)\<lparr>configured_level_value := Attr v\<rparr>))"

subsection \<open>A concrete installation\<close>

text \<open>
  The level table of the specification's scenarios, a system on which every operation
  succeeds, one on which \<open>open\<close> fails, the world before any logger exists, and an
  instance as \<open>__init__\<close> means to hand it to \<open>create_log_file\<close>, with its settings
  in place and the threshold \<open>INFO\<close>.
\<close>

definition demo_levels :: "string \<rightharpoonup> int" where
  "demo_levels = [''DEBUG'' \<mapsto> 0, ''INFO'' \<mapsto> 1, ''WARNING'' \<mapsto> 2, ''ERROR'' \<mapsto> 3]"

definition demo_env :: env where
  "demo_env =
     \<lparr>cwd = ''/home'', resolve = (\<lambda>p. p), can_mkdir = (\<lambda>p. True), can_open = (\<lambda>p. True),
      can_write = (\<lambda>p. True), load_json = (\<lambda>p. Inr (LevelSettings demo_levels))\<rparr>"

definition readonly_env :: env where
  "readonly_env = demo_env\<lparr>can_open := (\<lambda>p. False)\<rparr>"

definition empty_world :: world where
  "empty_world =
     \<lparr>files = (\<lambda>i. \<lparr>name = [], closed = True, written = []\<rparr>), nfiles = 0,
      open_loggers = Map.empty, stderr = []\<rparr>"

definition demo_logger :: logger where
  "demo_logger =
     \<lparr>lock = True, loglevel = ''INFO'', file_path = Some ''/logs'', log_file = None,
      log_file_name = None, timestamp = Some ''2024-01-01_00-00-00'',
      log_file_type = Attr ''log'', configured_level_value = Attr (Some 1),
      settings = Attr (LevelSettings demo_levels),
      settings_path = Attr ''./log_settings.json''\<rparr>"

definition demo_name :: string where
  "demo_name = ''/logs/2024-01-01_00-00-00.log''"

text \<open>
  Loggers A and B run \<open>create_log_file\<close> in the same second: \<open>opened_world\<close> is the world
  after A, \<open>shared_world\<close> the world after B, and \<open>shared_logger\<close> the state of either
  instance (they hold the same attributes).
\<close>

definition opened_world :: world where
  "opened_world = fst (snd (create_log_file demo_env empty_world demo_logger ''T0''))"

definition shared_logger :: logger where
  "shared_logger = snd (snd (create_log_file demo_env empty_world demo_logger ''T0''))"

definition shared_world :: world where
  "shared_world = fst (snd (create_log_file demo_env opened_world demo_logger ''T0''))"

text \<open>
  Then A closes (\<open>closed_world\<close>), a logger C runs \<open>create_log_file\<close> in the same second
  (\<open>reopened_world\<close>, \<open>reopened_logger\<close>), B closes (\<open>evicted_world\<close>), and a logger D runs
  \<open>create_log_file\<close>, still in the same second (\<open>doubled_world\<close>).
\<close>

definition closed_world :: world where
  "closed_world = fst (snd (close demo_env shared_world shared_logger ''T1''))"

definition reopened_world :: world where
  "reopened_world = fst (snd (create_log_file demo_env closed_world demo_logger ''T2''))"

definition reopened_logger :: logger where
  "reopened_logger = snd (snd (create_log_file demo_env closed_world demo_logger ''T2''))"

definition evicted_world :: world where
  "evicted_world = fst (snd (close demo_env reopened_world shared_logger ''T3''))"

definition doubled_world :: world where
  "doubled_world = fst (snd (create_log_file demo_env evicted_world demo_logger ''T4''))"

text \<open>
  A system whose disk accepts no more data; the context of the specification's
  scenario, \<open>{'user': 'abc'}\<close>; and the instance that line 80 leaves for the level name
  \<open>bogus\<close> when the settings are in place: the table has no such level, so the threshold
  is \<open>None\<close>.
\<close>

definition full_env :: env where
  "full_env = demo_env\<lparr>can_write := (\<lambda>p. False)\<rparr>"


definition bogus_logger :: logger where
  "bogus_logger = demo_logger\<lparr>loglevel := upper ''bogus'', configured_level_value := Attr None\<rparr>"

section \<open>Properties\<close>

subsection \<open>Auxiliary facts\<close>


lemma upper_info: "upper ''info'' = ''INFO''"
  by (simp add: upper_def upper_char_def)


text \<open>What \<open>log\<close> leaves alone: it only ever appends to the \<open>written\<close> list of a file.\<close>

lemma file_write_frame:
  "nfiles (snd (file_write w f s)) = nfiles w"
  "open_loggers (snd (file_write w f s)) = open_loggers w"
  "stderr (snd (file_write w f s)) = stderr w"
  "name (files (snd (file_write w f s)) i) = name (files w i)"
  "closed (files (snd (file_write w f s)) i) = closed (files w i)"
  by (simp_all add: file_write_def)

lemma log_cases:
  "snd (log w self ts level message ctx) = w
   \<or> (\<exists>f s. snd (log w self ts level message ctx) = snd (file_write w f s))"
  by (auto simp: log_def split: option.splits sum.splits)

lemma log_frame:
  "nfiles (snd (log w self ts level message ctx)) = nfiles w"
  "open_loggers (snd (log w self ts level message ctx)) = open_loggers w"
  "stderr (snd (log w self ts level message ctx)) = stderr w"
  "name (files (snd (log w self ts level message ctx)) i) = name (files w i)"
  "closed (files (snd (log w self ts level message ctx)) i) = closed (files w i)"
  using log_cases [of w self ts level message ctx]
  by (auto simp: file_write_frame)


text \<open>\<open>close\<close> leaves the file object of the instance closed, whatever else happens.\<close>

lemma close_file_closed: "closed (files (snd (close_file e w f)) f)"
  by (simp add: close_file_def)

lemma close_file_open_loggers: "open_loggers (snd (close_file e w f)) = open_loggers w"
  by (simp add: close_file_def)

lemma deregister_files: "files (deregister w n) = files w"
  by (simp add: deregister_def split: option.splits)

lemma deregister_gone: "open_loggers (deregister w (Some n)) n = None"
  by (auto simp: deregister_def)

lemma close_closed:
  assumes "log_file self = Some f"
  shows "closed (files (fst (snd (close e w self ts))) f)"
proof -
  obtain r w' where l: "log w self ts ''info'' ''Closing file'' PyNone = (r, w')"
    by (cases "log w self ts ''info'' ''Closing file'' PyNone")
  obtain c w'' where c: "close_file e w' f = (c, w'')"
    by (cases "close_file e w' f")
  from c have "closed (files w'' f)"
    using close_file_closed [of e w' f] by simp
  with assms l c show ?thesis
    by (cases c) (simp_all add: close_def deregister_files)
qed

subsection \<open>The concrete installation, evaluated\<close>

lemma get_log_name_demo: "get_log_name demo_logger = Inr demo_name"
  by (simp add: get_log_name_def demo_logger_def demo_name_def path_join_def)

lemma demo_logger_path: "file_path demo_logger = Some ''/logs''"
  by (simp add: demo_logger_def)

lemma demo_env_permits: "can_write demo_env p" "can_open demo_env p" "can_mkdir demo_env p"
  by (simp_all add: demo_env_def)

lemma demo_levels_upper:
  "demo_levels (upper ''debug'') = Some 0"
  "demo_levels (upper ''info'') = Some 1"
  "demo_levels (upper ''error'') = Some 3"
  "demo_levels (upper ''bogus'') = None"
  by (simp_all add: demo_levels_def upper_def upper_char_def)

lemma create_first:
  "create_log_file demo_env empty_world demo_logger ts =
     (None,
      \<lparr>files = (files empty_world)
         (0 := \<lparr>name = demo_name, closed = False,
                written = [''['' @ ts @ ''] [INFO] Starting\<newline>'']\<rparr>),
       nfiles = 1, open_loggers = [demo_name \<mapsto> 0], stderr = []\<rparr>,
      demo_logger\<lparr>log_file_name := Some demo_name, log_file := Some 0\<rparr>)"
  by (simp add: create_log_file_def get_log_name_def path_join_def log_def file_write_def
      format_def upper_def upper_char_def demo_levels_def demo_env_def empty_world_def
      demo_logger_def demo_name_def)

lemma shared_logger_eq:
  "shared_logger = demo_logger\<lparr>log_file_name := Some demo_name, log_file := Some 0\<rparr>"
  by (simp add: shared_logger_def create_first)

lemma shared_logger_fields:
  "lock shared_logger" "log_file shared_logger = Some 0"
  "log_file_name shared_logger = Some demo_name"
  "settings shared_logger = Attr (LevelSettings demo_levels)"
  "configured_level_value shared_logger = Attr (Some 1)"
  by (simp_all add: shared_logger_eq demo_logger_def)

lemma opened_world_fields:
  "nfiles opened_world = 1" "open_loggers opened_world demo_name = Some 0"
  "closed (files opened_world 0) = False" "name (files opened_world 0) = demo_name"
  "written (files opened_world 0) = [''[T0] [INFO] Starting\<newline>'']"
  by (simp_all add: opened_world_def create_first)

lemma shared_world_eq: "shared_world = opened_world"
  by (simp add: shared_world_def create_log_file_def get_log_name_demo opened_world_fields
      demo_logger_path demo_env_def)

subsection \<open>Construction\<close>

text \<open>
  C3. For every combination of constructor arguments, on every system and in every
  world, \<open>__init__\<close> raises: line 80 reads \<open>self.settings\<close>, which is assigned only at
  lines 109 and 115. The exception is \<open>AttributeError\<close>; it is raised before the log file
  is created (the world is unchanged, the instance has no file and no settings).
\<close>

theorem init_always_raises:
  "fst (init e w output_dir ftype spath LogLevel now ts) = Some AttributeError
   \<and> fst (snd (init e w output_dir ftype spath LogLevel now ts)) = w
   \<and> log_file (snd (snd (init e w output_dir ftype spath LogLevel now ts))) = None
   \<and> settings (snd (snd (init e w output_dir ftype spath LogLevel now ts))) = Unset"
  by (simp add: init_def configured_level_def init_fields_def)

text \<open>
  C6. Construction with a configured level name that the level table does not have
  should fail with \<open>LevelNotSupported\<close>. The code has the means: with the settings in
  place, line 80 stores \<open>None\<close> as the threshold, and the first \<open>log\<close> call of the
  constructor, the \<open>Starting\<close> record that \<open>create_log_file\<close> writes into a new file,
  raises \<open>LevelNotSupported\<close> on it. But \<open>__init__\<close> reads \<open>self.settings\<close> at line 80
  before it is assigned, so for the level name \<open>bogus\<close> the constructor raises
  \<open>AttributeError\<close> and not \<open>LevelNotSupported\<close>.
\<close>

theorem init_unknown_level_attribute_error:
  "demo_levels (upper ''bogus'') = None
   \<and> fst (init demo_env empty_world ''/logs'' ''log'' ''./log_settings.json'' ''bogus''
          ''2024-01-01_00-00-00'' ''T0'') = Some AttributeError
   \<and> configured_level (demo_logger\<lparr>loglevel := upper ''bogus''\<rparr>) = Inr None
   \<and> fst (create_log_file demo_env empty_world bogus_logger ''T0'') = Some LevelNotSupported"
  by code_simp

subsection \<open>Logger.log\<close>



text \<open>
  C5. On an open logger with a loaded level table, a level name that is absent from the
  table after upper-casing makes \<open>log\<close> raise \<open>LevelNotSupported\<close>, and the world (hence
  the file) is unchanged.
\<close>

theorem log_unknown_level:
  assumes "lock self" and "log_file self = Some f"
    and "settings self = Attr (LevelSettings tbl)"
    and "tbl (upper level) = None"
  shows "log w self ts level message ctx = (Some LevelNotSupported, w)"
  using assms by (simp add: log_def)

theorem log_unknown_level_witness:
  "log opened_world shared_logger ''T5'' ''bogus'' ''x'' PyNone
     = (Some LevelNotSupported, opened_world)"
  using log_unknown_level [OF shared_logger_fields(1,2,4) demo_levels_upper(4)] .



subsection \<open>Logger.close\<close>

text \<open>
  C7. After a \<open>close\<close> that returned normally, or that raised only what its nested
  \<open>log\<close> raised (anything but the \<open>OSError\<close> of \<open>file.close()\<close>), a further \<open>close\<close> on
  the instance, on any system, raises \<open>FileNotOpen\<close> and changes neither the world
  (files, registry) nor the instance.
\<close>

theorem close_twice:
  assumes "close e w self ts = (r, w', self')"
    and "r \<noteq> Some OSError"
  shows "close e' w' self' ts' = (Some FileNotOpen, w', self')"
proof (cases "log_file self")
  case None
  with assms(1) show ?thesis by (auto simp: close_def)
next
  case (Some f)
  obtain r0 w0 where l: "log w self ts ''info'' ''Closing file'' PyNone = (r0, w0)"
    by (cases "log w self ts ''info'' ''Closing file'' PyNone")
  obtain c w1 where c: "close_file e w0 f = (c, w1)"
    by (cases "close_file e w0 f")
  have "c = None \<or> c = Some OSError"
    using c by (auto simp: close_file_def split: if_splits)
  with assms Some l c have "log_file self' = None"
    by (auto simp: close_def)
  then show ?thesis by (simp add: close_def)
qed

theorem close_twice_witness:
  "fst (close demo_env opened_world shared_logger ''T1'') = None
   \<and> close full_env (fst (snd (close demo_env opened_world shared_logger ''T1'')))
        (snd (snd (close demo_env opened_world shared_logger ''T1''))) ''T2''
      = (Some FileNotOpen, fst (snd (close demo_env opened_world shared_logger ''T1'')),
         snd (snd (close demo_env opened_world shared_logger ''T1'')))"
proof -
  have first: "fst (close demo_env opened_world shared_logger ''T1'') = None"
    by code_simp
  then have ok: "fst (close demo_env opened_world shared_logger ''T1'') \<noteq> Some OSError"
    by simp
  have "close demo_env opened_world shared_logger ''T1''
      = (fst (close demo_env opened_world shared_logger ''T1''),
         fst (snd (close demo_env opened_world shared_logger ''T1'')),
         snd (snd (close demo_env opened_world shared_logger ''T1'')))"
    by simp
  from close_twice [OF this ok, of full_env "''T2''"] first show ?thesis
    by simp
qed

text \<open>
  C8. A failure of the \<open>Closing file\<close> write should never prevent the release. The
  code means it so (the release is in a \<open>finally\<close> block), but the write goes to the
  buffer, and on a system that refuses the data the failure comes up in
  \<open>self.log_file.close()\<close>, the first statement of that block: \<open>close\<close> raises \<open>OSError\<close>,
  and although the file object is closed, the registry still has the entry and the
  instance still holds the file object.
\<close>

theorem close_flush_failure_keeps_entry:
  "log_file shared_logger = Some 0
   \<and> log_file_name shared_logger = Some demo_name
   \<and> closed (files opened_world 0) = False
   \<and> fst (log opened_world shared_logger ''T1'' ''info'' ''Closing file'' PyNone) = None
   \<and> fst (close full_env opened_world shared_logger ''T1'') = Some OSError
   \<and> closed (files (fst (snd (close full_env opened_world shared_logger ''T1''))) 0) = True
   \<and> open_loggers (fst (snd (close full_env opened_world shared_logger ''T1''))) demo_name
       = Some 0
   \<and> log_file (snd (snd (close full_env opened_world shared_logger ''T1''))) = Some 0"
  by code_simp

text \<open>
  C2. The specification lets the first \<open>close\<close> leave a shared file open; the code has
  no reference count and does not: after loggers A and B have run \<open>create_log_file\<close> for
  the same name (B reuses A's file object 0), A's \<open>close\<close> closes that object and removes
  the registry entry, and B's next \<open>log\<close> raises and writes nothing.
\<close>

theorem shared_close_counterexample:
  "log_file (snd (snd (create_log_file demo_env opened_world demo_logger ''T0''))) = Some 0
   \<and> log_file shared_logger = Some 0
   \<and> nfiles shared_world = 1
   \<and> open_loggers shared_world demo_name = Some 0
   \<and> closed (files shared_world 0) = False
   \<and> fst (close demo_env shared_world shared_logger ''T1'') = None
   \<and> closed (files closed_world 0) = True
   \<and> open_loggers closed_world demo_name = None
   \<and> fst (log closed_world shared_logger ''T2'' ''info'' ''second'' PyNone)
       = Some ValueError
   \<and> written (files (snd (log closed_world shared_logger ''T2'' ''info'' ''second''
         PyNone)) 0)
       = [''[T0] [INFO] Starting\<newline>'', ''[T1] [INFO] Closing file\<newline>'']"
  by code_simp

text \<open>
  C2, as the code has it. There is no reference count. When instances \<open>a\<close> and \<open>b\<close>
  hold the same file object, \<open>close\<close> on \<open>a\<close> closes the object at once, and, when
  the system accepts the buffered data, removes the registry entry of \<open>a\<close>'s file name;
  \<open>b\<close> still holds the closed object, and a \<open>log\<close> call on \<open>b\<close> at or above the
  threshold does not return normally and leaves the world unchanged.
\<close>

theorem close_shared_handle:
  assumes "log_file a = Some f" and "log_file_name a = Some n"
    and "log_file b = Some f" and "lock b"
    and "settings b = Attr (LevelSettings tbl)"
    and "tbl (upper level) = Some ord"
    and "configured_level_value b = Attr (Some t)"
    and "t \<le> ord"
  shows "closed (files (fst (snd (close e w a ts))) f)
       \<and> (can_write e (name (files w f)) \<longrightarrow> open_loggers (fst (snd (close e w a ts))) n = None)
       \<and> fst (log (fst (snd (close e w a ts))) b ts' level message ctx) \<noteq> None
       \<and> snd (log (fst (snd (close e w a ts))) b ts' level message ctx)
           = fst (snd (close e w a ts))"
proof -
  have shut: "closed (files (fst (snd (close e w a ts))) f)"
    using assms(1) by (rule close_closed)
  have gone: "open_loggers (fst (snd (close e w a ts))) n = None"
    if "can_write e (name (files w f))"
  proof -
    obtain r w' where l: "log w a ts ''info'' ''Closing file'' PyNone = (r, w')"
      by (cases "log w a ts ''info'' ''Closing file'' PyNone")
    have "name (files w' f) = name (files w f)"
      using log_frame(4) [of w a "''T''" "''info''" "''Closing file''" PyNone f]
        log_frame(4) [of w a ts "''info''" "''Closing file''" PyNone f] l by simp
    with that have "fst (close_file e w' f) = None"
      by (simp add: close_file_def)
    then obtain w'' where c: "close_file e w' f = (None, w'')"
      by (cases "close_file e w' f") simp
    from assms(1,2) l c show ?thesis
      by (simp add: close_def deregister_gone)
  qed
  from shut assms(3-8)
  have "log (fst (snd (close e w a ts))) b ts' level message ctx
      = (Some ValueError, fst (snd (close e w a ts)))"
    by (simp add: log_def file_write_def)
  with shut gone show ?thesis by simp
qed

theorem close_shared_handle_witness:
  "closed (files (fst (snd (close demo_env shared_world shared_logger ''T1''))) 0)
   \<and> open_loggers (fst (snd (close demo_env shared_world shared_logger ''T1''))) demo_name = None
   \<and> fst (log (fst (snd (close demo_env shared_world shared_logger ''T1''))) shared_logger
        ''T2'' ''error'' ''second'' PyNone) \<noteq> None
   \<and> snd (log (fst (snd (close demo_env shared_world shared_logger ''T1''))) shared_logger
        ''T2'' ''error'' ''second'' PyNone)
       = fst (snd (close demo_env shared_world shared_logger ''T1''))"
proof -
  have "(1::int) \<le> 3" by simp
  note close_shared_handle [OF shared_logger_fields(2,3) shared_logger_fields(2,1,4)
      demo_levels_upper(3) shared_logger_fields(5) this,
      of demo_env shared_world "''T1''" "''T2''" "''second''" PyNone]
  then show ?thesis
    by (simp add: demo_env_permits)
qed

subsection \<open>Logger.create_log_file\<close>

text \<open>
  C4. A path should have at most one open file resource at any time, and
  \<open>create_log_file\<close> reuses the registered file object of a name (B below gets A's
  object 0, and no second object is created). But \<open>close\<close> removes the registry entry of
  the instance's file name whichever object is registered there, also when the
  instance's own file object is already closed. A and B share file object 0; A closes;
  C runs \<open>create_log_file\<close> for the same name and opens object 1; B, still holding the
  closed object 0, closes and thereby removes the registry entry of object 1; D runs
  \<open>create_log_file\<close> for the same name and opens object 2. Objects 1 and 2 are then
  both open on the same path.
\<close>

theorem stale_close_doubles_resource:
  "log_file (snd (snd (create_log_file demo_env opened_world demo_logger ''T0''))) = Some 0
   \<and> nfiles shared_world = 1
   \<and> log_file shared_logger = Some 0
   \<and> closed (files closed_world 0) = True
   \<and> log_file reopened_logger = Some 1
   \<and> open_loggers reopened_world demo_name = Some 1
   \<and> fst (close demo_env reopened_world shared_logger ''T3'') = Some ValueError
   \<and> open_loggers evicted_world demo_name = None
   \<and> closed (files evicted_world 1) = False
   \<and> nfiles doubled_world = 3
   \<and> open_loggers doubled_world demo_name = Some 2
   \<and> name (files doubled_world 1) = demo_name
   \<and> name (files doubled_world 2) = demo_name
   \<and> closed (files doubled_world 1) = False
   \<and> closed (files doubled_world 2) = False"
  by code_simp

text \<open>
  C10. The specification reports a failing \<open>open\<close> to the caller; the code does not: on
  a system that refuses to open the log file, \<open>create_log_file\<close> returns normally; one
  line on \<open>sys.stderr\<close> is all there is, and the instance holds no file.
\<close>

theorem open_failure_counterexample:
  "can_open readonly_env demo_name = False
   \<and> get_log_name demo_logger = Inr demo_name
   \<and> fst (create_log_file readonly_env empty_world demo_logger ''T0'') = None
   \<and> stderr (fst (snd (create_log_file readonly_env empty_world demo_logger ''T0'')))
       = [''Error: Unable to open log file /logs/2024-01-01_00-00-00.log\<newline>'']
   \<and> log_file (snd (snd (create_log_file readonly_env empty_world demo_logger ''T0''))) = None
   \<and> nfiles (fst (snd (create_log_file readonly_env empty_world demo_logger ''T0''))) = 0
   \<and> open_loggers (fst (snd (create_log_file readonly_env empty_world demo_logger ''T0'')))
        demo_name = None"
  by code_simp

text \<open>
  C10, as the code has it. When the log-file name is not registered and \<open>open\<close> raises
  an I/O error, \<open>create_log_file\<close> catches it: it appends
  \<open>Error: Unable to open log file <name>\<close> to \<open>sys.stderr\<close>, raises nothing, and leaves
  the files, the registry and the instance's \<open>log_file\<close> as they were.
\<close>

theorem create_log_file_open_failure:
  assumes "file_path self = Some p" and "can_mkdir e p"
    and "get_log_name self = Inr n"
    and "open_loggers w n = None"
    and "\<not> can_open e n"
  shows "create_log_file e w self ts =
     (None, w\<lparr>stderr := stderr w @ [''Error: Unable to open log file '' @ n @ ''\<newline>'']\<rparr>,
      self\<lparr>log_file_name := Some n\<rparr>)"
  using assms by (simp add: create_log_file_def open_error_message_def)

theorem create_log_file_open_failure_witness:
  "create_log_file readonly_env empty_world demo_logger ''T0'' =
     (None,
      empty_world\<lparr>stderr := stderr empty_world
         @ [''Error: Unable to open log file '' @ demo_name @ ''\<newline>'']\<rparr>,
      demo_logger\<lparr>log_file_name := Some demo_name\<rparr>)"
proof -
  have mkdir: "can_mkdir readonly_env ''/logs''"
    and refused: "\<not> can_open readonly_env demo_name"
    and unregistered: "open_loggers empty_world demo_name = None"
    by (simp_all add: readonly_env_def demo_env_def empty_world_def)
  show ?thesis
    using create_log_file_open_failure
      [OF demo_logger_path mkdir get_log_name_demo unregistered refused] .
qed

end
